theory Spec2Isabelle
  imports Complex_Main "HOL-Library.Sublist"
begin

section \<open>Status codes and the result record\<close>

text \<open>
  The module-level status constants of \<^verbatim>\<open>solution_checker.py\<close> (lines 19-27). The
  field \<^verbatim>\<open>check_result\<close> of a result holds one of these integers, or \<open>-1\<close> as long
  as nothing has been assigned.
\<close>

definition STATUS_OK :: int where "STATUS_OK = 0"
definition STATUS_CHECKING :: int where "STATUS_CHECKING = 1"
definition STATUS_BUILD_ERROR :: int where "STATUS_BUILD_ERROR = 2"
definition STATUS_RUNTIME_ERROR :: int where "STATUS_RUNTIME_ERROR = 3"
definition STATUS_CHECK_ERROR :: int where "STATUS_CHECK_ERROR = 4"
definition STATUS_RUNTIME_TIMEOUT :: int where "STATUS_RUNTIME_TIMEOUT = 6"
definition STATUS_BUILD_TIMEOUT :: int where "STATUS_BUILD_TIMEOUT = 7"
definition STATUS_LINT_ERROR :: int where "STATUS_LINT_ERROR = 8"
definition STATUS_DRAFT :: int where "STATUS_DRAFT = 9"

text \<open>
  Class \<^verbatim>\<open>CheckResult\<close> (lines 34-50). The two times are measured wall-clock spans; no
  property below depends on their value.
\<close>

record CheckResult =
  check_time :: real
  build_time :: real
  check_result :: int
  check_message :: string
  tests_passed :: nat
  tests_total :: nat
  lint_success :: bool

text \<open>The constructor called with no argument: every field at its default.\<close>

definition CheckResult_init :: CheckResult where
  "CheckResult_init =
     \<lparr>check_time = 0, build_time = 0, check_result = - 1, check_message = [],
      tests_passed = 0, tests_total = 0, lint_success = False\<rparr>"

section \<open>Strings\<close>

text \<open>The line terminator \<^verbatim>\<open>'\n'\<close> and the double quote of the message templates.\<close>

definition NL :: char where "NL = CHR 0x0A"
definition DQ :: char where "DQ = CHR 0x22"

text \<open>
  Python's \<^verbatim>\<open>str.find\<close>: the lowest index at which \<open>sub\<close> occurs in \<open>s\<close>, or
  \<open>-1\<close> when it does not occur. \<open>find_from s sub i\<close> searches the rest \<open>s\<close> of the
  text, \<open>i\<close> being the index of its first character.
\<close>

fun find_from :: "string \<Rightarrow> string \<Rightarrow> int \<Rightarrow> int" where
  "find_from [] sub i = (if sub = [] then i else - 1)"
| "find_from (c # cs) sub i =
     (if prefix sub (c # cs) then i else find_from cs sub (i + 1))"

definition str_find :: "string \<Rightarrow> string \<Rightarrow> int" where
  "str_find s sub = find_from s sub 0"

section \<open>Errors\<close>

text \<open>
  What the code can raise: \<^verbatim>\<open>IndexError\<close> from indexing an empty string,
  \<^verbatim>\<open>UnicodeDecodeError\<close> from decoding captured output, and the two
  \<^verbatim>\<open>Exception(...)\<close> of \<^verbatim>\<open>check_task_multiple_files\<close>, with their message.
\<close>

datatype py_error = IndexError | UnicodeDecodeError | Exception string

section \<open>Bytes and texts\<close>

text \<open>
  A character of the model is a byte, and a text (a Python \<^verbatim>\<open>str\<close>) is modelled by its
  UTF-8 encoding. \<^verbatim>\<open>bytes.decode()\<close> is then the identity on the byte sequences that
  are well-formed UTF-8 and raises \<^verbatim>\<open>UnicodeDecodeError\<close> on every other one. The
  well-formed sequences are those of the Unicode standard: no overlong form, no surrogate,
  nothing above U+10FFFF.
\<close>

definition in_range :: "nat \<Rightarrow> nat \<Rightarrow> char \<Rightarrow> bool" where
  "in_range lo hi c = (lo \<le> of_char c \<and> of_char c \<le> hi)"

fun utf8_valid :: "string \<Rightarrow> bool" where
  "utf8_valid [] = True"
| "utf8_valid (b # bs) =
     (if in_range 0x00 0x7F b then utf8_valid bs
      else if in_range 0xC2 0xDF b then
        (case bs of
           c1 # rest \<Rightarrow> in_range 0x80 0xBF c1 \<and> utf8_valid rest
         | _ \<Rightarrow> False)
      else if in_range 0xE0 0xEF b then
        (case bs of
           c1 # c2 # rest \<Rightarrow>
             in_range (if b = CHR 0xE0 then 0xA0 else 0x80)
               (if b = CHR 0xED then 0x9F else 0xBF) c1
             \<and> in_range 0x80 0xBF c2 \<and> utf8_valid rest
         | _ \<Rightarrow> False)
      else if in_range 0xF0 0xF4 b then
        (case bs of
           c1 # c2 # c3 # rest \<Rightarrow>
             in_range (if b = CHR 0xF0 then 0x90 else 0x80)
               (if b = CHR 0xF4 then 0x8F else 0xBF) c1
             \<and> in_range 0x80 0xBF c2 \<and> in_range 0x80 0xBF c3 \<and> utf8_valid rest
         | _ \<Rightarrow> False)
      else False)"

definition decode :: "string \<Rightarrow> py_error + string" where
  "decode bytes = (if utf8_valid bytes then Inr bytes else Inl UnicodeDecodeError)"

section \<open>The collaborators\<close>

text \<open>
  Every call that leaves the module is recorded, in order, in the log of the world; the
  host's files are part of the world too. The log keeps the program order of each thread;
  a call of the supervising thread made while the worker is still running is logged after
  the worker's calls.
\<close>

datatype call =
    Create_file string string
  | Files_to_tar
  | From_env
  | Containers_run
  | Put_archive
  | Exec_run string
  | Containers_get
  | Get_file_from_container string
  | Kill
  | Remove_container
  | Lint_dict
  | Rmtree string

record world =
  files :: "string \<Rightarrow> string option"
  calls :: "call list"

definition log :: "call \<Rightarrow> world \<Rightarrow> world" where
  "log c w = w\<lparr>calls := calls w @ [c]\<rparr>"

text \<open>
  Modelled from the spec: \<^verbatim>\<open>create_file\<close> of \<^verbatim>\<open>solution_checker.utils\<close> is not part
  of the sources at hand. The spec says of the step that calls it that it writes the text to
  the input location, "overwriting any prior value": afterwards the file at \<open>path\<close> holds
  \<open>content\<close> and every other file is as before.
\<close>

definition create_file :: "string \<Rightarrow> string \<Rightarrow> world \<Rightarrow> world" where
  "create_file path content w =
     log (Create_file path content) (w\<lparr>files := (files w)(path \<mapsto> content)\<rparr>)"

text \<open>
  \<^verbatim>\<open>ExecResult\<close> of the container engine's client: the exit code of the command and its
  captured output, as bytes.
\<close>

record exec_result =
  exit_code :: int
  "output" :: string

text \<open>
  What the container engine answers while one test vector is run: the result of
  \<^verbatim>\<open>exec_run\<close>, the status of the container when it is queried again, and the
  content of the output file as a text (\<open>None\<close> when the program wrote none). The three
  calls are assumed to return; the engine raising inside them is not modelled.
\<close>

record observation =
  execute_result :: exec_result
  status :: string
  fout :: "string option"

text \<open>\<^verbatim>\<open>container.exec_run(command, ...)\<close>, the engine answering \<open>reply\<close>.\<close>

definition exec_run :: "string \<Rightarrow> exec_result \<Rightarrow> world \<Rightarrow> exec_result \<times> world" where
  "exec_run command reply w = (reply, log (Exec_run command) w)"

definition containers_get :: "observation \<Rightarrow> world \<Rightarrow> string \<times> world" where
  "containers_get ob w = (status ob, log Containers_get w)"

definition get_file_from_container ::
  "string \<Rightarrow> observation \<Rightarrow> world \<Rightarrow> string option \<times> world" where
  "get_file_from_container path ob w = (fout ob, log (Get_file_from_container path) w)"

section \<open>The test runner: \<^verbatim>\<open>DockerTestThread.run\<close>\<close>

definition source_path :: string where
  "source_path = ''/root/source''"

definition input_file_path :: string where
  "input_file_path = ''/root/input/input.txt''"

definition output_file_path :: string where
  "output_file_path = source_path @ ''/output.txt''"

text \<open>The command line of lines 103-106, the two paths filled in.\<close>

definition run_command :: string where
  "run_command =
     ''/bin/bash -c '' @ [DQ] @ ''rm -f '' @ output_file_path @ '' && cat '' @ input_file_path
       @ '' | make -s ARGS='' @ [CHR 0x27] @ input_file_path @ '' '' @ output_file_path
       @ [CHR 0x27] @ '' run'' @ [DQ]"

text \<open>
  Line 128: the output file when there is one, the captured output otherwise. The captured
  output stands here for its text, which it has when it decodes.
\<close>

definition obtain_answer :: "observation \<Rightarrow> string" where
  "obtain_answer ob =
     (case fout ob of None \<Rightarrow> output (execute_result ob) | Some f \<Rightarrow> f)"

text \<open>
  Lines 131-132. The test is \<^verbatim>\<open>len(answer) > 0 and answer[-1] == '\n' and
  expected[-1] != '\n'\<close>, evaluated from left to right: \<^verbatim>\<open>expected[-1]\<close> is read only
  when the first two conditions hold, and raises \<^verbatim>\<open>IndexError\<close> when \<open>expected\<close> is
  empty.
\<close>

definition canonicalize :: "string \<Rightarrow> string \<Rightarrow> py_error + string" where
  "canonicalize answer expected =
     (if length answer > 0 \<and> last answer = NL then
        (if expected = [] then Inl IndexError
         else if last expected \<noteq> NL then Inr (butlast answer)
         else Inr answer)
      else Inr answer)"

text \<open>Line 135: the message of a mismatch.\<close>

definition mismatch_message :: "string \<Rightarrow> string \<Rightarrow> string \<Rightarrow> string" where
  "mismatch_message stdin expected answer =
     ''For '' @ [DQ] @ stdin @ [DQ] @ '' expected '' @ [DQ] @ expected @ [DQ]
       @ '', but got '' @ [DQ] @ answer @ [DQ]"

text \<open>
  One turn of the loop (lines 96-143) ends in one of three ways: the vector passed and the
  loop goes on; a result was stored in \<^verbatim>\<open>self.result\<close> and \<^verbatim>\<open>run\<close> returned; an
  exception left \<^verbatim>\<open>run\<close> with \<^verbatim>\<open>self.result\<close> untouched. The captured output is
  decoded at line 120, after the status of the container has been looked at and before
  the exit code is: output that does not decode ends the turn with
  \<^verbatim>\<open>UnicodeDecodeError\<close>, whatever the exit code and the output file.
\<close>

datatype outcome = Passed | Stored CheckResult | Raised py_error

definition run_test ::
  "string \<Rightarrow> observation \<Rightarrow> string \<times> string \<Rightarrow> nat \<Rightarrow> CheckResult \<Rightarrow> world
     \<Rightarrow> outcome \<times> world" where
  "run_test stdin_file_path ob test passed result w =
     (let stdin = fst test; expected = snd test;
          w1 = create_file stdin_file_path (stdin @ [NL]) w;
          (execute_result, w2) = exec_run run_command (execute_result ob) w1;
          (container_status, w3) = containers_get ob w2
      in if container_status = ''exited'' then
           (Stored (result\<lparr>check_result := STATUS_CHECK_ERROR, tests_passed := passed\<rparr>), w3)
         else
           case decode (output execute_result) of
             Inl e \<Rightarrow> (Raised e, w3)
           | Inr stdout \<Rightarrow>
               if exit_code execute_result \<noteq> 0 then
                 (Stored (result\<lparr>check_result := STATUS_RUNTIME_ERROR,
                                 check_message := stdout\<rparr>), w3)
               else
                 let (fout, w4) = get_file_from_container output_file_path ob w3;
                     answer = (case fout of None \<Rightarrow> stdout | Some f \<Rightarrow> f)
                 in case canonicalize answer expected of
                      Inl e \<Rightarrow> (Raised e, w4)
                    | Inr answer' \<Rightarrow>
                        if answer' \<noteq> expected then
                          (Stored (result\<lparr>check_result := STATUS_CHECK_ERROR,
                                          check_message := mismatch_message stdin expected answer',
                                          tests_passed := passed\<rparr>), w4)
                        else (Passed, w4))"

text \<open>
  The loop over the vectors. \<open>i\<close> is the position of the next vector, \<open>obs i\<close> what the
  engine answers while it runs, \<open>passed\<close> the local counter \<^verbatim>\<open>tests_passed\<close>. The
  value is \<open>Inr r\<close> when \<^verbatim>\<open>self.result\<close> ends as \<open>r\<close>, and \<open>Inl e\<close> when the thread
  dies of \<open>e\<close>, \<^verbatim>\<open>self.result\<close> still being \<^verbatim>\<open>None\<close>.
\<close>

fun run_loop ::
  "string \<Rightarrow> (nat \<Rightarrow> observation) \<Rightarrow> nat \<Rightarrow> (string \<times> string) list \<Rightarrow> nat \<Rightarrow> CheckResult
     \<Rightarrow> world \<Rightarrow> (py_error + CheckResult) \<times> world" where
  "run_loop stdin_file_path obs i [] passed result w =
     (Inr (result\<lparr>check_result := STATUS_OK, tests_passed := passed\<rparr>), w)"
| "run_loop stdin_file_path obs i (test # tests) passed result w =
     (case run_test stdin_file_path (obs i) test passed result w of
        (Passed, w') \<Rightarrow> run_loop stdin_file_path obs (i + 1) tests (passed + 1) result w'
      | (Stored r, w') \<Rightarrow> (Inr r, w')
      | (Raised e, w') \<Rightarrow> (Inl e, w'))"

definition run ::
  "string \<Rightarrow> (nat \<Rightarrow> observation) \<Rightarrow> (string \<times> string) list \<Rightarrow> world
     \<Rightarrow> (py_error + CheckResult) \<times> world" where
  "run stdin_file_path obs tests w =
     run_loop stdin_file_path obs 0 tests 0 (CheckResult_init\<lparr>tests_total := length tests\<rparr>) w"

text \<open>The field \<^verbatim>\<open>result\<close> of the thread object once \<^verbatim>\<open>run\<close> is over.\<close>

definition thread_result :: "py_error + CheckResult \<Rightarrow> CheckResult option" where
  "thread_result r = (case r of Inl e \<Rightarrow> None | Inr c \<Rightarrow> Some c)"

section \<open>The environment of one grading session\<close>

text \<open>
  Everything the session does not decide itself is a field of the environment: what the
  container engine answers, whether a thread is over when the bounded wait of its
  supervisor returns, the measured times, and the two functions of the linter, which is
  not part of the sources at hand. Wall-clock time is not modelled: that a phase exceeds
  its budget is an event of the environment (\<open>build_in_time\<close>, \<open>test_in_time\<close>).
  \<^item> \<open>observe i\<close>: what the engine answers while vector \<open>i\<close> (from 0) is run;
  \<^item> \<open>test_in_time\<close>: the test thread has ended when \<^verbatim>\<open>join(RUNTIME_TIMEOUT * len(tests))\<close>
    returns;
  \<^item> \<open>build_reply\<close>, \<open>build_in_time\<close>: the same for \<^verbatim>\<open>make build\<close> and
    \<^verbatim>\<open>join(BUILD_TIMEOUT)\<close>;
  \<^item> \<open>test_elapsed\<close>, \<open>build_elapsed\<close>: the rounded differences of \<^verbatim>\<open>time.time()\<close>;
  \<^item> \<open>tar_ok\<close>, \<open>put_ok\<close>: \<^verbatim>\<open>files_to_tar\<close> and \<^verbatim>\<open>put_archive\<close> return (they
    raise otherwise);
  \<^item> \<open>solution_path\<close>: the staging directory, \<^verbatim>\<open>os.path.join(os.getcwd(), 'solutions',
    str(uuid1()))\<close>.
\<close>

record 'e environment =
  observe :: "nat \<Rightarrow> observation"
  test_in_time :: bool
  test_elapsed :: real
  build_reply :: exec_result
  build_in_time :: bool
  build_elapsed :: real
  tar_ok :: bool
  put_ok :: bool
  solution_path :: string
  lint_dict :: "(string \<Rightarrow> string option) \<Rightarrow> 'e list"
  lint_errors_to_str :: "'e list \<Rightarrow> string"

section \<open>The phase supervisors\<close>

text \<open>
  \<^verbatim>\<open>build_solution\<close> (lines 154-167). The build thread calls \<^verbatim>\<open>exec_run('make build')\<close>
  and stores what it gets in its field \<^verbatim>\<open>result\<close>. The supervisor reads that field once,
  right after the bounded wait (line 161): it is \<^verbatim>\<open>None\<close> when the thread is not over. In
  that case the container is killed and the thread awaited; the value read at line 161 is
  what the function returns.
\<close>

definition build_solution ::
  "'e environment \<Rightarrow> world \<Rightarrow> (exec_result option \<times> real) \<times> world" where
  "build_solution env w =
     (let (build_result, w1) = exec_run ''make build'' (build_reply env) w;
          build_time = build_elapsed env;
          compile_result = (if build_in_time env then Some build_result else None);
          w2 = (if compile_result = None then log Kill w1 else w1)
      in ((compile_result, build_time), w2))"

text \<open>
  \<^verbatim>\<open>test_solution\<close> (lines 170-182). The field \<^verbatim>\<open>test_thread.result\<close> is read twice.
  At line 177, right after the bounded wait, it is \<^verbatim>\<open>None\<close> when the thread is not over,
  and also when the thread died of an exception. Then \<^verbatim>\<open>terminate\<close> queries the
  container again and kills it, and the unbounded \<^verbatim>\<open>join\<close> waits until the thread has
  left \<^verbatim>\<open>run\<close>. At line 182 the field is read again: the function returns what the
  thread has stored by then, whenever it stored it.
\<close>

definition test_solution ::
  "'e environment \<Rightarrow> string \<Rightarrow> (string \<times> string) list \<Rightarrow> world
     \<Rightarrow> (CheckResult option \<times> real) \<times> world" where
  "test_solution env stdin_file_path tests w =
     (let (r, w1) = run stdin_file_path (observe env) tests w;
          test_time = test_elapsed env;
          result_after_wait = (if test_in_time env then thread_result r else None);
          w2 = (if result_after_wait = None then log Kill (log Containers_get w1) else w1)
      in ((thread_result r, test_time), w2))"

text \<open>
  \<^verbatim>\<open>check_solution\<close> (lines 185-215). The value is \<open>Inr r\<close> when the function returns
  \<open>r\<close>, and \<open>Inl e\<close> when it raises \<open>e\<close>, which it does when the output of a failed
  build does not decode (line 198).
\<close>

definition check_solution ::
  "'e environment \<Rightarrow> string \<Rightarrow> (string \<times> string) list \<Rightarrow> bool \<Rightarrow> world
     \<Rightarrow> (py_error + CheckResult) \<times> world" where
  "check_solution env stdin_file_path tests need_to_build w =
     (let (early, build_time, w1) =
            (if need_to_build then
               (let ((build_result, build_time), w1) = build_solution env w
                in case build_result of
                     None \<Rightarrow>
                       (Some (Inr (CheckResult_init\<lparr>build_time := build_time,
                                check_result := STATUS_BUILD_TIMEOUT,
                                tests_total := length tests\<rparr>)), build_time, w1)
                   | Some br \<Rightarrow>
                       if exit_code br \<noteq> 0 then
                         (case decode (output br) of
                            Inl e \<Rightarrow> (Some (Inl e), build_time, w1)
                          | Inr msg \<Rightarrow>
                              (Some (Inr (CheckResult_init\<lparr>build_time := build_time,
                                       check_result := STATUS_BUILD_ERROR,
                                       check_message := msg,
                                       tests_total := length tests\<rparr>)), build_time, w1))
                       else (None, build_time, w1))
             else (None, 0, w))
      in case early of
           Some ended \<Rightarrow> (ended, w1)
         | None \<Rightarrow>
             (let ((test_result, test_time), w2) = test_solution env stdin_file_path tests w1;
                  test_result' =
                    (case test_result of
                       None \<Rightarrow> CheckResult_init\<lparr>check_result := STATUS_RUNTIME_TIMEOUT\<rparr>
                     | Some tr \<Rightarrow> tr)
              in (Inr (test_result'\<lparr>check_time := test_time, build_time := build_time\<rparr>),
                  w2)))"

section \<open>The session: \<^verbatim>\<open>check_task_multiple_files\<close>\<close>

text \<open>
  \<^verbatim>\<open>shutil.rmtree\<close>: no file is left under the directory.
\<close>

definition rmtree :: "string \<Rightarrow> world \<Rightarrow> world" where
  "rmtree dir w =
     log (Rmtree dir)
       (w\<lparr>files := (\<lambda>path. if prefix (dir @ ''/'') path then None else files w path)\<rparr>)"

text \<open>
  Lines 218-268. The submission is a dictionary from file names to texts. The value is
  \<open>Inl e\<close> when the function raises \<open>e\<close> and \<open>Inr r\<close> when it returns \<open>r\<close>.
  \<^verbatim>\<open>docker.from_env\<close> and \<^verbatim>\<open>containers.run\<close> are assumed to return. An exception
  of \<^verbatim>\<open>check_solution\<close> leaves the function at line 255: nothing after it is run.
\<close>

definition check_task_multiple_files ::
  "'e environment \<Rightarrow> (string \<Rightarrow> string option) \<Rightarrow> (string \<times> string) list \<Rightarrow> world
     \<Rightarrow> (py_error + CheckResult) \<times> world" where
  "check_task_multiple_files env source_code tests w =
     (case source_code ''Makefile'' of
        None \<Rightarrow>
          (Inr (CheckResult_init\<lparr>check_result := STATUS_BUILD_ERROR,
                  check_message := ''No Makefile found!''\<rparr>), w)
      | Some makefile \<Rightarrow>
          if str_find makefile ''run:'' = - 1 then
            (Inr (CheckResult_init\<lparr>check_result := STATUS_BUILD_ERROR,
                    check_message := ''Makefile must contain '' @ [DQ] @ ''run:'' @ [DQ]\<rparr>), w)
          else
            let need_to_build = (str_find makefile ''build:'' \<noteq> - 1);
                w1 = log Files_to_tar w
            in if \<not> tar_ok env then (Inl (Exception ''Unable to parse source code!''), w1)
               else
                 let solution_path_input = solution_path env @ ''/input'';
                     stdin_file_path = solution_path_input @ ''/input.txt'';
                     w2 = log Containers_run (log From_env w1);
                     w3 = log Put_archive w2
                 in if \<not> put_ok env then
                      (Inl (Exception ''Unable to create requested filesystem!''),
                       log Remove_container w3)
                    else
                      case check_solution env stdin_file_path tests need_to_build w3 of
                        (Inl e, w4) \<Rightarrow> (Inl e, w4)
                      | (Inr result, w4) \<Rightarrow>
                          let (result', w5) =
                                (if check_result result = STATUS_OK then
                                   let lint_errors = lint_dict env source_code;
                                       w5 = log Lint_dict w4;
                                       str_lint = lint_errors_to_str env lint_errors;
                                       r1 = result\<lparr>lint_success := (length str_lint = 0)\<rparr>
                                   in if \<not> lint_success r1 then
                                        (r1\<lparr>check_message :=
                                              check_message r1 @ [NL] @ str_lint\<rparr>, w5)
                                      else (r1, w5)
                                 else (result, w4));
                              w6 = log Remove_container (rmtree (solution_path env) w5)
                          in (Inr result', w6))"

section \<open>Notions used to state the properties\<close>

text \<open>
  A vector reaches the comparison when, after its run command, the container has not
  exited, the captured output decodes and the exit code is zero; it passes when, moreover,
  the canonicalized answer is the expected text.
\<close>

definition answered :: "observation \<Rightarrow> bool" where
  "answered ob =
     (status ob \<noteq> ''exited'' \<and> utf8_valid (output (execute_result ob))
      \<and> exit_code (execute_result ob) = 0)"

definition passes :: "string \<times> string \<Rightarrow> observation \<Rightarrow> bool" where
  "passes test ob =
     (answered ob \<and> canonicalize (obtain_answer ob) (snd test) = Inr (snd test))"


definition after_vector :: "string \<Rightarrow> string \<times> string \<Rightarrow> world \<Rightarrow> world" where
  "after_vector stdin_file_path test w =
     log (Get_file_from_container output_file_path)
       (log Containers_get
          (log (Exec_run run_command) (create_file stdin_file_path (fst test @ [NL]) w)))"

definition after_vectors :: "string \<Rightarrow> (string \<times> string) list \<Rightarrow> world \<Rightarrow> world" where
  "after_vectors stdin_file_path tests w =
     foldl (\<lambda>w' test. after_vector stdin_file_path test w') w tests"

text \<open>The calls the test thread makes inside \<^verbatim>\<open>run\<close>.\<close>

fun worker_call :: "call \<Rightarrow> bool" where
  "worker_call (Create_file path content) = True"
| "worker_call (Exec_run command) = (command = run_command)"
| "worker_call Containers_get = True"
| "worker_call (Get_file_from_container path) = True"
| "worker_call c = False"

text \<open>
  The spec's notion of a recipe that declares a target, to compare with the test the code
  makes: one of the lines of the Makefile is a rule for the target, that is, it starts
  with the name of the target followed by a colon.
\<close>

fun split_lines :: "string \<Rightarrow> string list" where
  "split_lines [] = [[]]"
| "split_lines (c # cs) =
     (if c = NL then [] # split_lines cs
      else (case split_lines cs of [] \<Rightarrow> [[c]] | l # ls \<Rightarrow> (c # l) # ls))"

definition declares_target :: "string \<Rightarrow> string \<Rightarrow> bool" where
  "declares_target name makefile = list_ex (prefix (name @ '':'')) (split_lines makefile)"

section \<open>Sample sessions\<close>

text \<open>
  Concrete inputs at which the properties are evaluated: a world with no file and an empty
  log; a run command that prints \<open>s\<close> and exits with code 0, the container still running
  and no output file written; one that exits with code \<open>c\<close>; and a run command that comes
  back only because the container was killed (exit code 137, container exited).
\<close>

definition empty_world :: world where
  "empty_world = \<lparr>files = (\<lambda>path. None), calls = []\<rparr>"

definition prints :: "string \<Rightarrow> observation" where
  "prints s =
     \<lparr>execute_result = \<lparr>exit_code = 0, output = s\<rparr>, status = ''running'', fout = None\<rparr>"

definition exits_with :: "int \<Rightarrow> string \<Rightarrow> observation" where
  "exits_with c s =
     \<lparr>execute_result = \<lparr>exit_code = c, output = s\<rparr>, status = ''running'', fout = None\<rparr>"

definition killed :: observation where
  "killed =
     \<lparr>execute_result = \<lparr>exit_code = 137, output = []\<rparr>, status = ''exited'', fout = None\<rparr>"


text \<open>
  A session in which packing and injecting the submission succeed and \<^verbatim>\<open>make build\<close>
  exits with code 0. The answers of the engine to the vectors, whether the two phases end
  in time, and the findings of the linter are left open; a finding is a text, and the
  findings are rendered one per line. A submission that consists of its Makefile.
\<close>

definition session :: "(nat \<Rightarrow> observation) \<Rightarrow> bool \<Rightarrow> bool \<Rightarrow> string list \<Rightarrow> string environment" where
  "session obs tests_in_time build_ends_in_time findings =
     \<lparr>observe = obs, test_in_time = tests_in_time, test_elapsed = 0,
      build_reply = \<lparr>exit_code = 0, output = []\<rparr>, build_in_time = build_ends_in_time,
      build_elapsed = 0, tar_ok = True, put_ok = True, solution_path = ''solutions/1'',
      lint_dict = (\<lambda>source_code. findings),
      lint_errors_to_str = (\<lambda>errors. concat (map (\<lambda>e. e @ [NL]) errors))\<rparr>"

definition submission :: "string \<Rightarrow> string \<Rightarrow> string option" where
  "submission makefile = (\<lambda>name. if name = ''Makefile'' then Some makefile else None)"


section \<open>The loop body and the loop\<close>

lemmas status_defs =
  STATUS_OK_def STATUS_CHECKING_def STATUS_BUILD_ERROR_def STATUS_RUNTIME_ERROR_def
  STATUS_CHECK_ERROR_def STATUS_RUNTIME_TIMEOUT_def STATUS_BUILD_TIMEOUT_def
  STATUS_LINT_ERROR_def STATUS_DRAFT_def

lemmas collaborator_defs =
  create_file_def exec_run_def containers_get_def get_file_from_container_def

lemma run_test_world:
  "answered ob \<Longrightarrow> snd (run_test p ob t n r w) = after_vector p t w"
  by (simp add: run_test_def answered_def after_vector_def collaborator_defs decode_def
      Let_def split: sum.split)

lemma run_test_passed:
  "passes t ob \<Longrightarrow> fst (run_test p ob t n r w) = Passed"
  by (simp add: run_test_def passes_def answered_def obtain_answer_def collaborator_defs
      decode_def Let_def)


lemma run_test_raised:
  assumes "answered ob" and "canonicalize (obtain_answer ob) (snd t) = Inl e"
  shows "fst (run_test p ob t n r w) = Raised e"
  using assms
  by (simp add: run_test_def answered_def obtain_answer_def collaborator_defs decode_def
      Let_def)

lemma run_test_runtime_error:
  assumes "status ob \<noteq> ''exited''" and "utf8_valid (output (execute_result ob))"
    and "exit_code (execute_result ob) \<noteq> 0"
  shows "fst (run_test p ob t n r w) =
           Stored (r\<lparr>check_result := STATUS_RUNTIME_ERROR,
                     check_message := output (execute_result ob)\<rparr>)"
  using assms
  by (simp add: run_test_def collaborator_defs decode_def Let_def)

lemma run_test_undecodable:
  assumes "status ob \<noteq> ''exited''" and "\<not> utf8_valid (output (execute_result ob))"
  shows "fst (run_test p ob t n r w) = Raised UnicodeDecodeError"
  using assms
  by (simp add: run_test_def collaborator_defs decode_def Let_def)

lemma run_test_exited:
  assumes "status ob = ''exited''"
  shows "fst (run_test p ob t n r w) =
           Stored (r\<lparr>check_result := STATUS_CHECK_ERROR, tests_passed := n\<rparr>)"
  using assms
  by (simp add: run_test_def collaborator_defs Let_def)

lemma run_loop_passing_prefix:
  "(\<And>m. m < length ts \<Longrightarrow> passes (ts ! m) (obs (i + m))) \<Longrightarrow>
   run_loop p obs i (ts @ rest) n r w =
     run_loop p obs (i + length ts) rest (n + length ts) r (after_vectors p ts w)"
proof (induction ts arbitrary: i n w)
  case Nil
  then show ?case by (simp add: after_vectors_def)
next
  case (Cons t ts)
  have head: "passes t (obs i)"
    using Cons.prems [of 0] by simp
  have tail: "\<And>m. m < length ts \<Longrightarrow> passes (ts ! m) (obs (Suc i + m))"
    using Cons.prems [of "Suc m" for m] by simp
  have step: "run_test p (obs i) t n r w = (Passed, after_vector p t w)"
    using run_test_passed [OF head] run_test_world [of "obs i"] head
    by (simp add: passes_def prod_eq_iff)
  show ?case
    using Cons.IH [of "Suc i" "Suc n" "after_vector p t w", OF tail]
    by (simp add: step after_vectors_def)
qed



lemma files_after_vector:
  "files (after_vector p t w) = (files w)(p \<mapsto> fst t @ [NL])"
  by (simp add: after_vector_def create_file_def log_def)



lemma run_at_vector:
  assumes j: "j < length tests"
    and before: "\<And>i. i < j \<Longrightarrow> passes (tests ! i) (obs i)"
  shows "run p obs tests w =
           (case run_test p (obs j) (tests ! j) j (CheckResult_init\<lparr>tests_total := length tests\<rparr>)
                   (after_vectors p (take j tests) w) of
              (Passed, w') \<Rightarrow>
                run_loop p obs (j + 1) (drop (Suc j) tests) (j + 1)
                  (CheckResult_init\<lparr>tests_total := length tests\<rparr>) w'
            | (Stored r, w') \<Rightarrow> (Inr r, w')
            | (Raised e, w') \<Rightarrow> (Inl e, w'))"
proof -
  have split: "tests = take j tests @ tests ! j # drop (Suc j) tests"
    using j by (simp add: id_take_nth_drop)
  have pre: "\<And>m. m < length (take j tests) \<Longrightarrow> passes (take j tests ! m) (obs (0 + m))"
    using before j by simp
  have "run p obs tests w =
          run_loop p obs 0 (take j tests @ tests ! j # drop (Suc j) tests) 0
            (CheckResult_init\<lparr>tests_total := length tests\<rparr>) w"
    using split by (simp add: run_def)
  also have "\<dots> =
          run_loop p obs (0 + length (take j tests)) (tests ! j # drop (Suc j) tests)
            (0 + length (take j tests)) (CheckResult_init\<lparr>tests_total := length tests\<rparr>)
            (after_vectors p (take j tests) w)"
    by (rule run_loop_passing_prefix [OF pre])
  finally show ?thesis
    using j by (simp add: min_def)
qed

section \<open>The first mismatch\<close>




lemmas sample_defs = empty_world_def prints_def exits_with_def killed_def

lemma passes_prints:
  "passes (s, e) (prints a) = (utf8_valid a \<and> canonicalize a e = Inr e)"
  by (simp add: passes_def answered_def prints_def obtain_answer_def)


section \<open>A run command that fails\<close>

lemma runtime_error_result:
  assumes k: "0 < k" "k \<le> length tests"
    and before: "\<forall>i < k - 1. passes (tests ! i) (obs i)"
    and running: "status (obs (k - 1)) \<noteq> ''exited''"
    and decodes: "utf8_valid (output (execute_result (obs (k - 1))))"
    and failed: "exit_code (execute_result (obs (k - 1))) \<noteq> 0"
  shows "fst (run stdin_file_path obs tests w) =
           Inr (CheckResult_init\<lparr>tests_total := length tests,
                  check_result := STATUS_RUNTIME_ERROR,
                  check_message := output (execute_result (obs (k - 1)))\<rparr>)"
proof -
  define j where "j = k - 1"
  have j: "j < length tests"
    using k by (simp add: j_def)
  have pre: "\<And>i. i < j \<Longrightarrow> passes (tests ! i) (obs i)"
    using before by (simp add: j_def)
  obtain res w' where rt:
    "run_test stdin_file_path (obs j) (tests ! j) j
       (CheckResult_init\<lparr>tests_total := length tests\<rparr>)
       (after_vectors stdin_file_path (take j tests) w) = (res, w')"
    by (cases "run_test stdin_file_path (obs j) (tests ! j) j
       (CheckResult_init\<lparr>tests_total := length tests\<rparr>)
       (after_vectors stdin_file_path (take j tests) w)")
  have "fst (run_test stdin_file_path (obs j) (tests ! j) j
               (CheckResult_init\<lparr>tests_total := length tests\<rparr>)
               (after_vectors stdin_file_path (take j tests) w)) =
          Stored (CheckResult_init\<lparr>tests_total := length tests,
                    check_result := STATUS_RUNTIME_ERROR,
                    check_message := output (execute_result (obs j))\<rparr>)"
    using running decodes failed unfolding j_def [symmetric] by (rule run_test_runtime_error)
  then have "res = Stored (CheckResult_init\<lparr>tests_total := length tests,
                    check_result := STATUS_RUNTIME_ERROR,
                    check_message := output (execute_result (obs j))\<rparr>)"
    by (simp add: rt)
  then have "fst (run stdin_file_path obs tests w) =
           Inr (CheckResult_init\<lparr>tests_total := length tests,
                  check_result := STATUS_RUNTIME_ERROR,
                  check_message := output (execute_result (obs j))\<rparr>)"
    using run_at_vector [OF j pre, of stdin_file_path w] rt by simp
  then show ?thesis
    by (simp add: j_def)
qed

text \<open>
  Claim C2, at the input where it fails: of two vectors the first passes and the run command
  of the second exits with code 1. The stored result is \<open>STATUS_RUNTIME_ERROR\<close> with the
  captured output as its message, and its \<open>tests_passed\<close> is 0, not 1: lines 121-125 never
  assign \<^verbatim>\<open>result.tests_passed\<close>.
\<close>

theorem runtime_error_forgets_tests_passed:
  "\<exists>r. fst (run ''input.txt'' (\<lambda>i. if i = 0 then prints ''1'' else exits_with 1 ''Traceback'')
              [(''1'', ''1''), (''2'', ''2'')] empty_world) = Inr r
     \<and> check_result r = STATUS_RUNTIME_ERROR
     \<and> check_message r = ''Traceback''
     \<and> tests_total r = 2
     \<and> tests_passed r = 0"
proof -
  let ?obs = "\<lambda>i::nat. if i = 0 then prints ''1'' else exits_with 1 ''Traceback''"
  let ?tests = "[(''1'', ''1''), (''2'', ''2'')]"
  have k: "0 < (2::nat)" "2 \<le> length ?tests"
    by simp_all
  have before: "\<forall>i < 2 - 1. passes (?tests ! i) (?obs i)"
    by (simp add: passes_prints canonicalize_def in_range_def NL_def)
  have running: "status (?obs (2 - 1)) \<noteq> ''exited''"
    by (simp add: exits_with_def)
  have decodes: "utf8_valid (output (execute_result (?obs (2 - 1))))"
    by (simp add: exits_with_def in_range_def)
  have failed: "exit_code (execute_result (?obs (2 - 1))) \<noteq> 0"
    by (simp add: exits_with_def)
  show ?thesis
    using runtime_error_result
      [OF k before running decodes failed, of "''input.txt''" empty_world]
    by (simp add: CheckResult_init_def exits_with_def)
qed

section \<open>The canonicalization and the comparison\<close>

lemma canonicalize_empty_expected:
  "answer \<noteq> [] \<Longrightarrow> last answer = NL \<Longrightarrow> canonicalize answer [] = Inl IndexError"
  by (simp add: canonicalize_def)

text \<open>
  Where the expected text is not empty, the comparison is the one the newline law
  describes: one trailing terminator of the answer is dropped when the expected text ends
  with none, and nothing else is changed.
\<close>

lemma canonicalize_nonempty_expected:
  "expected \<noteq> [] \<Longrightarrow>
   canonicalize answer expected =
     Inr (if answer \<noteq> [] \<and> last answer = NL \<and> last expected \<noteq> NL then butlast answer
          else answer)"
  by (simp add: canonicalize_def)

lemma canonicalize_empty_answer:
  "canonicalize [] expected = Inr []"
  by (simp add: canonicalize_def)

text \<open>
  Claim C3, at the input where it fails: the expected text is empty, so it has no trailing
  terminator, and the answer is a single line terminator. The answer without its
  terminator is the expected text, so the comparison should succeed; the code raises
  \<^verbatim>\<open>IndexError\<close> at \<^verbatim>\<open>expected[-1]\<close> and the thread stores no result.
\<close>

theorem newline_answer_to_empty_expected_raises:
  "butlast [NL] = ([] :: string)
     \<and> canonicalize [NL] [] = Inl IndexError
     \<and> fst (run ''input.txt'' (\<lambda>i. prints [NL]) [(''7'', [])] empty_world) = Inl IndexError"
  by (simp add: canonicalize_def run_def run_test_def prints_def collaborator_defs decode_def
      in_range_def NL_def Let_def)

text \<open>
  Claim C9. When the expected output of vector \<open>k\<close> is the empty string and the answer
  obtained for it is not empty and ends with a line terminator (the vectors before it
  passing, and vector \<open>k\<close> reaching the comparison), \<^verbatim>\<open>run\<close> raises \<^verbatim>\<open>IndexError\<close>:
  the thread ends without a result.
\<close>

theorem empty_expected_raises:
  assumes k: "0 < k" "k \<le> length tests"
    and before: "\<forall>i < k - 1. passes (tests ! i) (obs i)"
    and reached: "answered (obs (k - 1))"
    and empty: "snd (tests ! (k - 1)) = []"
    and nonempty: "obtain_answer (obs (k - 1)) \<noteq> []"
    and newline: "last (obtain_answer (obs (k - 1))) = NL"
  shows "fst (run stdin_file_path obs tests w) = Inl IndexError
           \<and> thread_result (fst (run stdin_file_path obs tests w)) = None"
proof -
  define j where "j = k - 1"
  have j: "j < length tests"
    using k by (simp add: j_def)
  have pre: "\<And>i. i < j \<Longrightarrow> passes (tests ! i) (obs i)"
    using before by (simp add: j_def)
  have canon: "canonicalize (obtain_answer (obs (k - 1))) (snd (tests ! (k - 1))) = Inl IndexError"
    using canonicalize_empty_expected [OF nonempty newline] empty by simp
  obtain res w' where rt:
    "run_test stdin_file_path (obs j) (tests ! j) j
       (CheckResult_init\<lparr>tests_total := length tests\<rparr>)
       (after_vectors stdin_file_path (take j tests) w) = (res, w')"
    by (cases "run_test stdin_file_path (obs j) (tests ! j) j
       (CheckResult_init\<lparr>tests_total := length tests\<rparr>)
       (after_vectors stdin_file_path (take j tests) w)")
  have "fst (run_test stdin_file_path (obs j) (tests ! j) j
               (CheckResult_init\<lparr>tests_total := length tests\<rparr>)
               (after_vectors stdin_file_path (take j tests) w)) = Raised IndexError"
    using reached canon unfolding j_def [symmetric] by (rule run_test_raised)
  then have "res = Raised IndexError"
    by (simp add: rt)
  then have "fst (run stdin_file_path obs tests w) = Inl IndexError"
    using run_at_vector [OF j pre, of stdin_file_path w] rt by simp
  then show ?thesis
    by (simp add: thread_result_def)
qed

text \<open>
  The same vector with captured output that does not decode: \<^verbatim>\<open>run\<close> raises at line
  120, before the comparison, and the thread ends without a result as well.
\<close>

lemma undecodable_output_raises:
  assumes k: "0 < k" "k \<le> length tests"
    and before: "\<forall>i < k - 1. passes (tests ! i) (obs i)"
    and running: "status (obs (k - 1)) \<noteq> ''exited''"
    and undecodable: "\<not> utf8_valid (output (execute_result (obs (k - 1))))"
  shows "fst (run stdin_file_path obs tests w) = Inl UnicodeDecodeError
           \<and> thread_result (fst (run stdin_file_path obs tests w)) = None"
proof -
  define j where "j = k - 1"
  have j: "j < length tests"
    using k by (simp add: j_def)
  have pre: "\<And>i. i < j \<Longrightarrow> passes (tests ! i) (obs i)"
    using before by (simp add: j_def)
  obtain res w' where rt:
    "run_test stdin_file_path (obs j) (tests ! j) j
       (CheckResult_init\<lparr>tests_total := length tests\<rparr>)
       (after_vectors stdin_file_path (take j tests) w) = (res, w')"
    by (cases "run_test stdin_file_path (obs j) (tests ! j) j
       (CheckResult_init\<lparr>tests_total := length tests\<rparr>)
       (after_vectors stdin_file_path (take j tests) w)")
  have "fst (run_test stdin_file_path (obs j) (tests ! j) j
               (CheckResult_init\<lparr>tests_total := length tests\<rparr>)
               (after_vectors stdin_file_path (take j tests) w)) = Raised UnicodeDecodeError"
    using running undecodable unfolding j_def [symmetric] by (rule run_test_undecodable)
  then have "res = Raised UnicodeDecodeError"
    by (simp add: rt)
  then have "fst (run stdin_file_path obs tests w) = Inl UnicodeDecodeError"
    using run_at_vector [OF j pre, of stdin_file_path w] rt by simp
  then show ?thesis
    by (simp add: thread_result_def)
qed

theorem empty_expected_raises_witness:
  "fst (run ''input.txt'' (\<lambda>i. if i = 0 then prints ''1'' else prints (''x'' @ [NL]))
          [(''1'', ''1''), (''2'', [])] empty_world) = Inl IndexError
     \<and> thread_result
          (fst (run ''input.txt'' (\<lambda>i. if i = 0 then prints ''1'' else prints (''x'' @ [NL]))
                  [(''1'', ''1''), (''2'', [])] empty_world)) = None"
proof -
  let ?obs = "\<lambda>i::nat. if i = 0 then prints ''1'' else prints (''x'' @ [NL])"
  let ?tests = "[(''1'', ''1''), (''2'', [])]"
  have k: "0 < (2::nat)" "2 \<le> length ?tests"
    by simp_all
  have before: "\<forall>i < 2 - 1. passes (?tests ! i) (?obs i)"
    by (simp add: passes_prints canonicalize_def in_range_def NL_def)
  have reached: "answered (?obs (2 - 1))"
    by (simp add: answered_def prints_def in_range_def NL_def)
  have empty: "snd (?tests ! (2 - 1)) = []"
    by simp
  have nonempty: "obtain_answer (?obs (2 - 1)) \<noteq> []"
    by (simp add: obtain_answer_def prints_def)
  have newline: "last (obtain_answer (?obs (2 - 1))) = NL"
    by (simp add: obtain_answer_def prints_def)
  show ?thesis
    by (rule empty_expected_raises [OF k before reached empty nonempty newline])
qed

section \<open>The input file\<close>

text \<open>
  Claim C5 as stated: after the turn of the loop for a vector, the input file holds the
  vector's stdin exactly. It fails for the stdin \<^verbatim>\<open>3\<close>: the file holds \<^verbatim>\<open>3\<close> followed by
  a line terminator.
\<close>

theorem input_file_is_not_stdin:
  "files (snd (run_test ''input.txt'' (prints ''3'') (''3'', ''3'') 0 CheckResult_init
                 empty_world)) ''input.txt'' \<noteq> Some ''3''"
  by (simp add: run_test_world answered_def prints_def files_after_vector in_range_def)

text \<open>
  Claim C5, amended. Whatever the input file held before and however the turn of the loop
  ends, after it the file at the input location holds the vector's stdin followed by one
  line terminator (line 98 writes \<^verbatim>\<open>'{}\n'.format(stdin)\<close>).
\<close>

theorem input_file_is_stdin_and_newline:
  "files (snd (run_test stdin_file_path ob test passed result w)) stdin_file_path =
     Some (fst test @ [NL])"
  by (simp add: run_test_def collaborator_defs log_def decode_def Let_def split: sum.split)

section \<open>The substring test\<close>

lemma find_from_sublist:
  "0 \<le> i \<Longrightarrow> (find_from s sub i = - 1) = (\<not> sublist sub s)"
proof (induction s arbitrary: i)
  case Nil
  then show ?case by auto
next
  case (Cons c cs)
  have "0 \<le> i + 1"
    using Cons.prems by simp
  then have "(find_from cs sub (i + 1) = - 1) = (\<not> sublist sub cs)"
    by (rule Cons.IH)
  then show ?case
    using Cons.prems by (auto simp: sublist_Cons_right)
qed

lemma str_find_sublist:
  "(str_find s sub = - 1) = (\<not> sublist sub s)"
  by (simp add: str_find_def find_from_sublist)

lemma sublist_by_find:
  "sublist sub s = (str_find s sub \<noteq> - 1)"
  by (simp add: str_find_sublist)

section \<open>The calls of the phases\<close>

lemma run_test_calls:
  "\<exists>cs. calls (snd (run_test p ob t n r w)) = calls w @ cs \<and> list_all worker_call cs"
  by (simp add: run_test_def collaborator_defs log_def decode_def Let_def split: sum.split)

lemma run_loop_calls:
  "\<exists>cs. calls (snd (run_loop p obs i ts n r w)) = calls w @ cs \<and> list_all worker_call cs"
proof (induction ts arbitrary: i n w)
  case Nil
  then show ?case by simp
next
  case (Cons t ts)
  obtain res w1 where rt: "run_test p (obs i) t n r w = (res, w1)"
    by (cases "run_test p (obs i) t n r w")
  obtain cs1 where cs1: "calls w1 = calls w @ cs1" "list_all worker_call cs1"
    using run_test_calls [of p "obs i" t n r w] rt by auto
  show ?case
  proof (cases res)
    case Passed
    obtain cs2 where cs2:
      "calls (snd (run_loop p obs (i + 1) ts (n + 1) r w1)) = calls w1 @ cs2"
      "list_all worker_call cs2"
      using Cons.IH [of "i + 1" "n + 1" w1] by auto
    have "calls (snd (run_loop p obs i (t # ts) n r w)) = calls w @ (cs1 @ cs2)"
      using rt Passed cs1 cs2 by simp
    moreover have "list_all worker_call (cs1 @ cs2)"
      using cs1 cs2 by simp
    ultimately show ?thesis by blast
  next
    case (Stored x)
    then show ?thesis using rt cs1 by auto
  next
    case (Raised e)
    then show ?thesis using rt cs1 by auto
  qed
qed

lemma run_calls:
  "\<exists>cs. calls (snd (run p obs tests w)) = calls w @ cs \<and> list_all worker_call cs"
  unfolding run_def by (rule run_loop_calls)

lemma make_build_is_not_run_command:
  "''make build'' \<noteq> run_command"
  by (simp add: run_command_def)

lemma worker_calls_exclude:
  "list_all worker_call cs \<Longrightarrow>
     Lint_dict \<notin> set cs \<and> Kill \<notin> set cs \<and> Exec_run ''make build'' \<notin> set cs"
  using make_build_is_not_run_command by (induction cs) auto

lemma test_solution_calls:
  "\<exists>cs. calls (snd (test_solution env p tests w)) = calls w @ cs
     \<and> Lint_dict \<notin> set cs \<and> Exec_run ''make build'' \<notin> set cs"
proof -
  obtain r w1 where rn: "run p (observe env) tests w = (r, w1)"
    by (cases "run p (observe env) tests w")
  obtain cs where cs: "calls w1 = calls w @ cs" "list_all worker_call cs"
    using run_calls [of p "observe env" tests w] rn by auto
  have ex: "Lint_dict \<notin> set cs \<and> Exec_run ''make build'' \<notin> set cs"
    using worker_calls_exclude [OF cs(2)] by simp
  show ?thesis
  proof (cases "(if test_in_time env then thread_result r else None) = None")
    case True
    then have "calls (snd (test_solution env p tests w)) = calls w @ (cs @ [Containers_get, Kill])"
      using rn cs by (simp add: test_solution_def log_def Let_def)
    moreover have "Lint_dict \<notin> set (cs @ [Containers_get, Kill])
        \<and> Exec_run ''make build'' \<notin> set (cs @ [Containers_get, Kill])"
      using ex by simp
    ultimately show ?thesis by blast
  next
    case False
    then have "calls (snd (test_solution env p tests w)) = calls w @ cs"
      using rn cs by (simp add: test_solution_def log_def Let_def)
    then show ?thesis using ex by blast
  qed
qed

lemma build_solution_eq:
  "build_solution env w =
     ((if build_in_time env then Some (build_reply env) else None, build_elapsed env),
      (if build_in_time env then log (Exec_run ''make build'') w
       else log Kill (log (Exec_run ''make build'') w)))"
  by (simp add: build_solution_def exec_run_def Let_def)

text \<open>The three ways through \<^verbatim>\<open>check_solution\<close>.\<close>

lemma check_solution_build_timeout:
  "\<not> build_in_time env \<Longrightarrow>
   check_solution env p tests True w =
     (Inr (CheckResult_init\<lparr>build_time := build_elapsed env,
        check_result := STATUS_BUILD_TIMEOUT, tests_total := length tests\<rparr>),
      log Kill (log (Exec_run ''make build'') w))"
  by (simp add: check_solution_def build_solution_eq Let_def)

lemma check_solution_build_error:
  "build_in_time env \<Longrightarrow> exit_code (build_reply env) \<noteq> 0 \<Longrightarrow>
   check_solution env p tests True w =
     ((if utf8_valid (output (build_reply env)) then
         Inr (CheckResult_init\<lparr>build_time := build_elapsed env,
                check_result := STATUS_BUILD_ERROR, check_message := output (build_reply env),
                tests_total := length tests\<rparr>)
       else Inl UnicodeDecodeError),
      log (Exec_run ''make build'') w)"
  by (simp add: check_solution_def build_solution_eq decode_def Let_def)

lemma check_solution_tests:
  "\<not> need_to_build \<or> (build_in_time env \<and> exit_code (build_reply env) = 0) \<Longrightarrow>
   check_solution env p tests need_to_build w =
     (Inr ((case fst (fst (test_solution env p tests
                  (if need_to_build then log (Exec_run ''make build'') w else w))) of
         None \<Rightarrow> CheckResult_init\<lparr>check_result := STATUS_RUNTIME_TIMEOUT\<rparr>
       | Some tr \<Rightarrow> tr)
        \<lparr>check_time := test_elapsed env,
          build_time := (if need_to_build then build_elapsed env else 0)\<rparr>),
      snd (test_solution env p tests
             (if need_to_build then log (Exec_run ''make build'') w else w)))"
  by (auto simp: check_solution_def build_solution_eq test_solution_def Let_def
      split: prod.split option.split)

lemma check_solution_calls:
  "\<exists>cs. calls (snd (check_solution env p tests need_to_build w)) = calls w @ cs
     \<and> Lint_dict \<notin> set cs
     \<and> (Exec_run ''make build'' \<in> set cs) = need_to_build"
proof (cases need_to_build)
  case False
  then have "snd (check_solution env p tests need_to_build w) = snd (test_solution env p tests w)"
    by (simp add: check_solution_tests)
  then show ?thesis
    using test_solution_calls [of env p tests w] False by auto
next
  case build: True
  show ?thesis
  proof (cases "build_in_time env")
    case False
    then have "calls (snd (check_solution env p tests need_to_build w)) =
        calls w @ [Exec_run ''make build'', Kill]"
      using build by (simp add: check_solution_build_timeout log_def)
    then show ?thesis using build by simp
  next
    case in_time: True
    show ?thesis
    proof (cases "exit_code (build_reply env) = 0")
      case False
      then have "calls (snd (check_solution env p tests need_to_build w)) =
          calls w @ [Exec_run ''make build'']"
        using build in_time by (simp add: check_solution_build_error log_def)
      then show ?thesis using build by simp
    next
      case True
      then have eq: "snd (check_solution env p tests need_to_build w) =
          snd (test_solution env p tests (log (Exec_run ''make build'') w))"
        using build in_time by (simp add: check_solution_tests)
      obtain cs where cs:
        "calls (snd (test_solution env p tests (log (Exec_run ''make build'') w))) =
           calls (log (Exec_run ''make build'') w) @ cs"
        "Lint_dict \<notin> set cs"
        using test_solution_calls [of env p tests "log (Exec_run ''make build'') w"] by auto
      have "calls (snd (check_solution env p tests need_to_build w)) =
          calls w @ (Exec_run ''make build'' # cs)"
        using eq cs by (simp add: log_def)
      moreover have "Lint_dict \<notin> set (Exec_run ''make build'' # cs)"
        using cs by simp
      moreover have "(Exec_run ''make build'' \<in> set (Exec_run ''make build'' # cs)) = need_to_build"
        using build by simp
      ultimately show ?thesis by blast
    qed
  qed
qed

section \<open>The session\<close>

text \<open>
  The session past the validation of the recipe, when packing and injecting succeed: the
  result of \<^verbatim>\<open>check_solution\<close>, the linter's part when its status is \<open>STATUS_OK\<close>, and
  the teardown.
\<close>

lemma session_accepted:
  assumes makefile: "source_code ''Makefile'' = Some makefile"
    and run_target: "sublist ''run:'' makefile"
    and provisioned: "tar_ok env" "put_ok env"
    and checked: "check_solution env (solution_path env @ ''/input'' @ ''/input.txt'') tests
            (sublist ''build:'' makefile)
            (log Put_archive (log Containers_run (log From_env (log Files_to_tar w)))) =
          (Inr result, w4)"
  shows "check_task_multiple_files env source_code tests w =
           (Inr (if check_result result = STATUS_OK then
                   if lint_errors_to_str env (lint_dict env source_code) = [] then
                     result\<lparr>lint_success := True\<rparr>
                   else
                     result\<lparr>lint_success := False,
                       check_message := check_message result @ [NL]
                         @ lint_errors_to_str env (lint_dict env source_code)\<rparr>
                 else result),
            log Remove_container
              (rmtree (solution_path env)
                 (if check_result result = STATUS_OK then log Lint_dict w4 else w4)))"
  using assms
  by (simp add: check_task_multiple_files_def str_find_sublist Let_def)

lemma session_raised:
  assumes makefile: "source_code ''Makefile'' = Some makefile"
    and run_target: "sublist ''run:'' makefile"
    and provisioned: "tar_ok env" "put_ok env"
    and checked: "check_solution env (solution_path env @ ''/input'' @ ''/input.txt'') tests
            (sublist ''build:'' makefile)
            (log Put_archive (log Containers_run (log From_env (log Files_to_tar w)))) =
          (Inl e, w4)"
  shows "check_task_multiple_files env source_code tests w = (Inl e, w4)"
  using assms
  by (simp add: check_task_multiple_files_def str_find_sublist Let_def)

section \<open>A build that exceeds its budget\<close>

text \<open>
  Claim C6. In a session that requires a build (the Makefile contains \<^verbatim>\<open>run:\<close> and
  \<^verbatim>\<open>build:\<close>, packing and injecting succeed), when the build thread is not over at the
  end of the bounded wait, the result has status \<open>STATUS_BUILD_TIMEOUT\<close>, the container is
  killed, and the calls of the session are the eight listed: after \<^verbatim>\<open>make build\<close> and the
  kill only the teardown follows, so no input file is written and no run command is
  executed.
\<close>

theorem build_timeout_ends_session:
  assumes makefile: "source_code ''Makefile'' = Some makefile"
    and run_target: "sublist ''run:'' makefile"
    and build_target: "sublist ''build:'' makefile"
    and provisioned: "tar_ok env" "put_ok env"
    and late: "\<not> build_in_time env"
  shows "\<exists>r w'. check_task_multiple_files env source_code tests w = (Inr r, w')
           \<and> check_result r = STATUS_BUILD_TIMEOUT
           \<and> tests_passed r = 0
           \<and> tests_total r = length tests
           \<and> calls w' = calls w @
               [Files_to_tar, From_env, Containers_run, Put_archive,
                Exec_run ''make build'', Kill,
                Rmtree (solution_path env), Remove_container]"
proof -
  have checked: "check_solution env (solution_path env @ ''/input'' @ ''/input.txt'') tests
            (sublist ''build:'' makefile)
            (log Put_archive (log Containers_run (log From_env (log Files_to_tar w)))) =
          (Inr (CheckResult_init\<lparr>build_time := build_elapsed env,
             check_result := STATUS_BUILD_TIMEOUT, tests_total := length tests\<rparr>),
           log Kill (log (Exec_run ''make build'')
             (log Put_archive (log Containers_run (log From_env (log Files_to_tar w))))))"
    using build_target late by (simp add: check_solution_build_timeout)
  show ?thesis
    using session_accepted
      [where source_code = source_code, OF makefile run_target provisioned checked]
    by (simp add: status_defs CheckResult_init_def log_def rmtree_def)
qed

theorem build_timeout_ends_session_witness:
  "\<exists>r w'. check_task_multiple_files (session (\<lambda>i. prints ''1'') True False [])
          (submission ''build: main.c run: main'') [(''1'', ''1'')] empty_world = (Inr r, w')
     \<and> check_result r = STATUS_BUILD_TIMEOUT
     \<and> tests_passed r = 0
     \<and> tests_total r = 1
     \<and> calls w' =
          [Files_to_tar, From_env, Containers_run, Put_archive,
           Exec_run ''make build'', Kill, Rmtree ''solutions/1'', Remove_container]"
proof -
  let ?env = "session (\<lambda>i. prints ''1'') True False []"
  have makefile: "submission ''build: main.c run: main'' ''Makefile'' = Some ''build: main.c run: main''"
    by (simp add: submission_def)
  have run_target: "sublist ''run:'' ''build: main.c run: main''"
    by (simp add: sublist_by_find str_find_def)
  have build_target: "sublist ''build:'' ''build: main.c run: main''"
    by (simp add: sublist_by_find str_find_def)
  have provisioned: "tar_ok ?env" "put_ok ?env"
    by (simp_all add: session_def)
  have late: "\<not> build_in_time ?env"
    by (simp add: session_def)
  show ?thesis
    using build_timeout_ends_session
      [where source_code = "submission ''build: main.c run: main''"
         and tests = "[(''1'', ''1'')]" and w = empty_world,
       OF makefile run_target build_target provisioned late]
    by (simp add: session_def empty_world_def)
qed

section \<open>The calls of a session\<close>

lemma session_log:
  assumes makefile: "source_code ''Makefile'' = Some makefile"
    and run_target: "sublist ''run:'' makefile"
    and provisioned: "tar_ok env" "put_ok env"
    and checked: "check_solution env (solution_path env @ ''/input'' @ ''/input.txt'') tests
            (sublist ''build:'' makefile)
            (log Put_archive (log Containers_run (log From_env (log Files_to_tar w)))) =
          (ended, w4)"
  shows "\<exists>cs. Lint_dict \<notin> set cs
           \<and> (Exec_run ''make build'' \<in> set cs) = sublist ''build:'' makefile
           \<and> calls (snd (check_task_multiple_files env source_code tests w)) =
               calls w @ [Files_to_tar, From_env, Containers_run, Put_archive] @ cs
                 @ (case ended of
                      Inl e \<Rightarrow> []
                    | Inr result \<Rightarrow>
                        (if check_result result = STATUS_OK then [Lint_dict] else [])
                          @ [Rmtree (solution_path env), Remove_container])"
proof -
  obtain cs where cs:
    "calls (snd (check_solution env (solution_path env @ ''/input'' @ ''/input.txt'') tests
            (sublist ''build:'' makefile)
            (log Put_archive (log Containers_run (log From_env (log Files_to_tar w)))))) =
       calls (log Put_archive (log Containers_run (log From_env (log Files_to_tar w)))) @ cs"
    "Lint_dict \<notin> set cs"
    "(Exec_run ''make build'' \<in> set cs) = sublist ''build:'' makefile"
    using check_solution_calls
      [of env "solution_path env @ ''/input'' @ ''/input.txt''" tests
          "sublist ''build:'' makefile"
          "log Put_archive (log Containers_run (log From_env (log Files_to_tar w)))"]
    by auto
  have w4: "calls w4 = calls w @ [Files_to_tar, From_env, Containers_run, Put_archive] @ cs"
    using cs(1) checked by (simp add: log_def)
  have "calls (snd (check_task_multiple_files env source_code tests w)) =
          calls w @ [Files_to_tar, From_env, Containers_run, Put_archive] @ cs
            @ (case ended of
                 Inl e \<Rightarrow> []
               | Inr result \<Rightarrow>
                   (if check_result result = STATUS_OK then [Lint_dict] else [])
                     @ [Rmtree (solution_path env), Remove_container])"
  proof (cases ended)
    case (Inl e)
    then show ?thesis
      using session_raised
        [where source_code = source_code, OF makefile run_target provisioned
           checked [unfolded Inl]] w4
      by simp
  next
    case (Inr result)
    then show ?thesis
      using session_accepted
        [where source_code = source_code, OF makefile run_target provisioned
           checked [unfolded Inr]] w4
      by (simp add: log_def rmtree_def)
  qed
  then show ?thesis
    using cs(2,3) by blast
qed

lemma session_packs_first:
  assumes makefile: "source_code ''Makefile'' = Some makefile"
    and run_target: "sublist ''run:'' makefile"
  shows "\<exists>cs. calls (snd (check_task_multiple_files env source_code tests w)) =
           calls w @ Files_to_tar # cs"
proof (cases "tar_ok env \<and> put_ok env")
  case True
  obtain result w4 where checked:
    "check_solution env (solution_path env @ ''/input'' @ ''/input.txt'') tests
       (sublist ''build:'' makefile)
       (log Put_archive (log Containers_run (log From_env (log Files_to_tar w)))) =
     (result, w4)"
    by (cases "check_solution env (solution_path env @ ''/input'' @ ''/input.txt'') tests
       (sublist ''build:'' makefile)
       (log Put_archive (log Containers_run (log From_env (log Files_to_tar w))))")
  show ?thesis
    using session_log [where source_code = source_code, OF makefile run_target _ _ checked] True
    by auto
next
  case False
  then show ?thesis
    using makefile run_target
    by (auto simp: check_task_multiple_files_def str_find_sublist Let_def log_def)
qed

section \<open>A submission without a run target\<close>

text \<open>
  A Makefile that declares a target contains the name of the target followed by a colon:
  the code's test accepts every Makefile that declares a run target. It accepts others too.
\<close>

lemma first_line_prefix:
  "split_lines s = h # t \<Longrightarrow> prefix h s"
  by (induction s arbitrary: h t) (auto split: if_splits list.splits)

lemma line_is_sublist:
  "l \<in> set (split_lines s) \<Longrightarrow> sublist l s"
proof (induction s arbitrary: l)
  case Nil
  then show ?case by simp
next
  case (Cons c cs)
  show ?case
  proof (cases "c = NL")
    case True
    then show ?thesis
      using Cons by (auto simp: sublist_Cons_right)
  next
    case False
    show ?thesis
    proof (cases "split_lines cs")
      case Nil
      then show ?thesis
        using Cons.prems False by (auto simp: sublist_Cons_right)
    next
      case (Cons h t)
      have "prefix h cs"
        using Cons by (rule first_line_prefix)
      then have first: "sublist (c # h) (c # cs)"
        by (simp add: sublist_Cons_right)
      have rest: "\<And>l. l \<in> set t \<Longrightarrow> sublist l (c # cs)"
        using Cons.IH Cons by (simp add: sublist_Cons_right)
      show ?thesis
        using Cons.prems False Cons first rest by auto
    qed
  qed
qed

lemma declared_target_is_found:
  "declares_target name makefile \<Longrightarrow> sublist (name @ '':'') makefile"
proof -
  assume "declares_target name makefile"
  then obtain l where l: "l \<in> set (split_lines makefile)" "prefix (name @ '':'') l"
    by (auto simp: declares_target_def list_ex_iff)
  have "sublist (name @ '':'') l"
    using l(2) by (rule prefix_imp_sublist)
  moreover have "sublist l makefile"
    using l(1) by (rule line_is_sublist)
  ultimately show ?thesis
    by (rule sublist_order.order_trans)
qed

text \<open>
  Claim C7 as stated: a submission whose Makefile does not declare a run target gets
  \<open>STATUS_BUILD_ERROR\<close> and no environment is provisioned. It fails for the Makefile
  \<^verbatim>\<open># run: later\<close>, a comment: no target is declared, yet the text \<^verbatim>\<open>run:\<close> is found,
  the container is created and the session goes on to another verdict.
\<close>

theorem comment_passes_for_run_target:
  "\<not> declares_target ''run'' ''# run: later''
     \<and> (\<exists>r w'. check_task_multiple_files (session (\<lambda>i. prints ''1'') True True [])
            (submission ''# run: later'') [(''1'', ''1'')] empty_world = (Inr r, w')
          \<and> check_result r \<noteq> STATUS_BUILD_ERROR
          \<and> Containers_run \<in> set (calls w'))"
proof -
  let ?env = "session (\<lambda>i. prints ''1'') True True []"
  let ?tests = "[(''1'', ''1'')]"
  let ?checked = "check_solution ?env (solution_path ?env @ ''/input'' @ ''/input.txt'')
      ?tests (sublist ''build:'' ''# run: later'')
      (log Put_archive (log Containers_run (log From_env (log Files_to_tar empty_world))))"
  have undeclared: "\<not> declares_target ''run'' ''# run: later''"
    by (simp add: declares_target_def NL_def)
  have makefile: "submission ''# run: later'' ''Makefile'' = Some ''# run: later''"
    by (simp add: submission_def)
  have run_target: "sublist ''run:'' ''# run: later''"
    by (simp add: sublist_by_find str_find_def)
  have no_build: "\<not> sublist ''build:'' ''# run: later''"
    by (simp add: sublist_by_find str_find_def)
  have provisioned: "tar_ok ?env" "put_ok ?env"
    by (simp_all add: session_def)
  have passed: "fst ?checked =
      Inr (CheckResult_init\<lparr>check_result := STATUS_OK, tests_passed := 1, tests_total := 1\<rparr>)"
    by (simp add: no_build check_solution_tests test_solution_def run_def run_test_def
        collaborator_defs canonicalize_def decode_def in_range_def thread_result_def
        session_def prints_def CheckResult_init_def Let_def)
  have checked: "?checked =
      (Inr (CheckResult_init\<lparr>check_result := STATUS_OK, tests_passed := 1, tests_total := 1\<rparr>),
       snd ?checked)"
    using passed by (simp add: prod_eq_iff)
  obtain cs where cs:
    "calls (snd (check_task_multiple_files ?env (submission ''# run: later'') ?tests empty_world)) =
       calls empty_world @ [Files_to_tar, From_env, Containers_run, Put_archive] @ cs
         @ [Lint_dict, Rmtree (solution_path ?env), Remove_container]"
    using session_log
      [where source_code = "submission ''# run: later''" and env = ?env and tests = ?tests
         and w = empty_world, OF makefile run_target provisioned checked]
    by (auto simp: status_defs CheckResult_init_def)
  have returned: "fst (check_task_multiple_files ?env (submission ''# run: later'') ?tests
        empty_world) =
      Inr (CheckResult_init\<lparr>check_result := STATUS_OK, tests_passed := 1, tests_total := 1,
             lint_success := True\<rparr>)"
    using session_accepted
      [where source_code = "submission ''# run: later''" and env = ?env and tests = ?tests
         and w = empty_world, OF makefile run_target provisioned checked]
    by (simp add: session_def CheckResult_init_def)
  have "\<exists>r w'. check_task_multiple_files ?env (submission ''# run: later'') ?tests empty_world =
          (Inr r, w')
        \<and> check_result r \<noteq> STATUS_BUILD_ERROR
        \<and> Containers_run \<in> set (calls w')"
  proof (intro exI conjI)
    show "check_task_multiple_files ?env (submission ''# run: later'') ?tests empty_world =
        (Inr (CheckResult_init\<lparr>check_result := STATUS_OK, tests_passed := 1, tests_total := 1,
                lint_success := True\<rparr>),
         snd (check_task_multiple_files ?env (submission ''# run: later'') ?tests empty_world))"
      using returned by (simp add: prod_eq_iff)
    show "check_result (CheckResult_init\<lparr>check_result := STATUS_OK, tests_passed := 1,
        tests_total := 1, lint_success := True\<rparr>) \<noteq> STATUS_BUILD_ERROR"
      by (simp add: status_defs)
    show "Containers_run \<in> set (calls (snd (check_task_multiple_files ?env
        (submission ''# run: later'') ?tests empty_world)))"
      unfolding cs by simp
  qed
  then show ?thesis
    using undeclared by simp
qed

text \<open>
  Claim C7, amended. When the submission has no Makefile, or its Makefile does not contain
  the text \<^verbatim>\<open>run:\<close>, the session returns a result with status \<open>STATUS_BUILD_ERROR\<close> and
  a message that says what is missing, and the world is the one it started from: no file is
  touched and no call is made, to the container engine or to any other collaborator.
\<close>

theorem no_run_target_is_build_error:
  assumes "case source_code ''Makefile'' of None \<Rightarrow> True
             | Some makefile \<Rightarrow> \<not> sublist ''run:'' makefile"
  shows "\<exists>r. check_task_multiple_files env source_code tests w = (Inr r, w)
           \<and> check_result r = STATUS_BUILD_ERROR
           \<and> check_message r =
               (case source_code ''Makefile'' of
                  None \<Rightarrow> ''No Makefile found!''
                | Some makefile \<Rightarrow> ''Makefile must contain '' @ [DQ] @ ''run:'' @ [DQ])
           \<and> tests_passed r = 0"
  using assms
  by (simp add: check_task_multiple_files_def str_find_sublist CheckResult_init_def
      split: option.splits)

theorem no_run_target_is_build_error_witness:
  "\<exists>r. check_task_multiple_files (session (\<lambda>i. prints ''1'') True True [])
          (submission ''build: main.c'') [(''1'', ''1'')] empty_world = (Inr r, empty_world)
     \<and> check_result r = STATUS_BUILD_ERROR
     \<and> check_message r = ''Makefile must contain '' @ [DQ] @ ''run:'' @ [DQ]
     \<and> tests_passed r = 0"
proof -
  have "case submission ''build: main.c'' ''Makefile'' of None \<Rightarrow> True
          | Some makefile \<Rightarrow> \<not> sublist ''run:'' makefile"
    by (simp add: submission_def sublist_by_find str_find_def)
  then show ?thesis
    using no_run_target_is_build_error
      [of "submission ''build: main.c''" "session (\<lambda>i. prints ''1'') True True []"
          "[(''1'', ''1'')]" empty_world]
    by (simp add: submission_def)
qed

section \<open>The validation of the recipe\<close>

text \<open>
  Claim C10. For a submission with a Makefile, the session ends at the validation (with the
  result that asks for \<^verbatim>\<open>run:\<close>, nothing done) exactly when the text of the Makefile does
  not contain \<^verbatim>\<open>run:\<close> as a substring, wherever it stands. When it contains it and the
  submission is packed and injected, \<^verbatim>\<open>make build\<close> is among the calls of the session
  exactly when the text contains \<^verbatim>\<open>build:\<close> as a substring.
\<close>

theorem recipe_validation_is_substring_test:
  assumes makefile: "source_code ''Makefile'' = Some makefile"
  shows "(check_task_multiple_files env source_code tests w =
            (Inr (CheckResult_init\<lparr>check_result := STATUS_BUILD_ERROR,
                    check_message := ''Makefile must contain '' @ [DQ] @ ''run:'' @ [DQ]\<rparr>), w))
           = (\<not> sublist ''run:'' makefile)
         \<and> (sublist ''run:'' makefile \<and> tar_ok env \<and> put_ok env \<longrightarrow>
              (\<exists>cs. calls (snd (check_task_multiple_files env source_code tests w)) = calls w @ cs
                 \<and> (Exec_run ''make build'' \<in> set cs) = sublist ''build:'' makefile))"
proof (intro conjI impI)
  show "(check_task_multiple_files env source_code tests w =
            (Inr (CheckResult_init\<lparr>check_result := STATUS_BUILD_ERROR,
                    check_message := ''Makefile must contain '' @ [DQ] @ ''run:'' @ [DQ]\<rparr>), w))
           = (\<not> sublist ''run:'' makefile)"
  proof (cases "sublist ''run:'' makefile")
    case True
    obtain cs where "calls (snd (check_task_multiple_files env source_code tests w)) =
        calls w @ Files_to_tar # cs"
      using session_packs_first [where source_code = source_code, OF makefile True] by blast
    then have "snd (check_task_multiple_files env source_code tests w) \<noteq> w"
      by auto
    then show ?thesis
      using True by auto
  next
    case False
    then show ?thesis
      using makefile by (simp add: check_task_multiple_files_def str_find_sublist)
  qed
next
  assume accepted: "sublist ''run:'' makefile \<and> tar_ok env \<and> put_ok env"
  obtain ended w4 where checked:
    "check_solution env (solution_path env @ ''/input'' @ ''/input.txt'') tests
       (sublist ''build:'' makefile)
       (log Put_archive (log Containers_run (log From_env (log Files_to_tar w)))) =
     (ended, w4)"
    by (cases "check_solution env (solution_path env @ ''/input'' @ ''/input.txt'') tests
       (sublist ''build:'' makefile)
       (log Put_archive (log Containers_run (log From_env (log Files_to_tar w))))")
  obtain cs where cs:
    "(Exec_run ''make build'' \<in> set cs) = sublist ''build:'' makefile"
    "calls (snd (check_task_multiple_files env source_code tests w)) =
       calls w @ [Files_to_tar, From_env, Containers_run, Put_archive] @ cs
         @ (case ended of
              Inl e \<Rightarrow> []
            | Inr result \<Rightarrow>
                (if check_result result = STATUS_OK then [Lint_dict] else [])
                  @ [Rmtree (solution_path env), Remove_container])"
    using session_log [where source_code = source_code, OF makefile _ _ _ checked] accepted
    by blast
  have "(Exec_run ''make build'' \<in> set ([Files_to_tar, From_env, Containers_run, Put_archive] @ cs
         @ (case ended of
              Inl e \<Rightarrow> []
            | Inr result \<Rightarrow>
                (if check_result result = STATUS_OK then [Lint_dict] else [])
                  @ [Rmtree (solution_path env), Remove_container]))) =
        sublist ''build:'' makefile"
    using cs(1) by (simp split: sum.split)
  then show "\<exists>cs. calls (snd (check_task_multiple_files env source_code tests w)) = calls w @ cs
                 \<and> (Exec_run ''make build'' \<in> set cs) = sublist ''build:'' makefile"
    using cs(2) by blast
qed

text \<open>
  The property at a Makefile whose only \<^verbatim>\<open>run:\<close> stands inside the word
  \<^verbatim>\<open>prerun:\<close> of a comment, and whose only \<^verbatim>\<open>build:\<close> inside \<^verbatim>\<open>rebuild:\<close>: the
  session goes on, and it builds.
\<close>

theorem recipe_validation_is_substring_test_witness:
  "check_task_multiple_files (session (\<lambda>i. prints ''1'') True True [])
       (submission ''# prerun: rebuild: x'') [(''1'', ''1'')] empty_world \<noteq>
     (Inr (CheckResult_init\<lparr>check_result := STATUS_BUILD_ERROR,
             check_message := ''Makefile must contain '' @ [DQ] @ ''run:'' @ [DQ]\<rparr>),
      empty_world)
   \<and> (\<exists>cs. calls (snd (check_task_multiple_files (session (\<lambda>i. prints ''1'') True True [])
                  (submission ''# prerun: rebuild: x'') [(''1'', ''1'')] empty_world)) =
               calls empty_world @ cs
          \<and> Exec_run ''make build'' \<in> set cs)"
proof -
  let ?env = "session (\<lambda>i. prints ''1'') True True []"
  have makefile: "submission ''# prerun: rebuild: x'' ''Makefile'' = Some ''# prerun: rebuild: x''"
    by (simp add: submission_def)
  have run_target: "sublist ''run:'' ''# prerun: rebuild: x''"
    by (simp add: sublist_by_find str_find_def)
  have build_target: "sublist ''build:'' ''# prerun: rebuild: x''"
    by (simp add: sublist_by_find str_find_def)
  have provisioned: "tar_ok ?env" "put_ok ?env"
    by (simp_all add: session_def)
  show ?thesis
    using recipe_validation_is_substring_test
      [where source_code = "submission ''# prerun: rebuild: x''" and env = ?env
         and tests = "[(''1'', ''1'')]" and w = empty_world, OF makefile]
      run_target build_target provisioned
    by simp
qed

section \<open>The linter\<close>




section \<open>A test phase that exceeds its budget\<close>

text \<open>
  What \<^verbatim>\<open>check_solution\<close> returns does not depend on whether the test thread was over at
  the end of the bounded wait: the result is read again after the thread has been awaited
  (line 182).
\<close>

lemma verdict_ignores_test_budget:
  "fst (check_solution (env\<lparr>test_in_time := b\<rparr>) p tests need_to_build w) =
   fst (check_solution env p tests need_to_build w)"
  by (simp add: check_solution_def build_solution_def test_solution_def exec_run_def Let_def
      split: prod.split option.split sum.split)

text \<open>
  \<open>STATUS_RUNTIME_TIMEOUT\<close> is what the session reports when the test thread has left
  \<^verbatim>\<open>run\<close> without a result, which in \<^verbatim>\<open>run\<close> happens only through an exception.
\<close>

lemma test_solution_result:
  "fst (test_solution env p tests w) =
     (thread_result (fst (run p (observe env) tests w)), test_elapsed env)"
  by (simp add: test_solution_def Let_def case_prod_beta)

lemma no_result_is_runtime_timeout:
  "thread_result (fst (run p (observe env) tests w)) = None \<Longrightarrow>
   fst (check_solution env p tests False w) =
     Inr (CheckResult_init\<lparr>check_result := STATUS_RUNTIME_TIMEOUT,
       check_time := test_elapsed env, build_time := 0\<rparr>)"
  by (simp add: check_solution_tests test_solution_result)

lemma stored_result_is_adopted:
  "thread_result (fst (run p (observe env) tests w)) = Some r \<Longrightarrow>
   fst (check_solution env p tests False w) =
     Inr (r\<lparr>check_time := test_elapsed env, build_time := 0\<rparr>)"
  by (simp add: check_solution_tests test_solution_result)

text \<open>
  Claim C4, at the input where it fails: of two vectors the first passes and the run command
  of the second is still running when the bounded wait ends. The supervisor kills the
  container; the run command comes back, the worker finds the container exited and stores
  \<open>STATUS_CHECK_ERROR\<close> with the count of passed vectors. That result is what the session
  returns: its status is not \<open>STATUS_RUNTIME_TIMEOUT\<close> and its \<open>tests_passed\<close> is 1.
\<close>

theorem test_timeout_reported_as_check_error:
  "\<exists>r w'. check_task_multiple_files
          (session (\<lambda>i. if i = 0 then prints ''1'' else killed) False True [])
          (submission ''run: main'') [(''1'', ''1''), (''2'', ''2'')] empty_world = (Inr r, w')
     \<and> Kill \<in> set (calls w')
     \<and> check_result r = STATUS_CHECK_ERROR
     \<and> check_result r \<noteq> STATUS_RUNTIME_TIMEOUT
     \<and> tests_passed r = 1
     \<and> tests_total r = 2"
proof -
  let ?env = "session (\<lambda>i. if i = 0 then prints ''1'' else killed) False True []"
  let ?tests = "[(''1'', ''1''), (''2'', ''2'')]"
  let ?checked = "check_solution ?env (solution_path ?env @ ''/input'' @ ''/input.txt'')
      ?tests (sublist ''build:'' ''run: main'')
      (log Put_archive (log Containers_run (log From_env (log Files_to_tar empty_world))))"
  have makefile: "submission ''run: main'' ''Makefile'' = Some ''run: main''"
    by (simp add: submission_def)
  have run_target: "sublist ''run:'' ''run: main''"
    by (simp add: sublist_by_find str_find_def)
  have no_build: "\<not> sublist ''build:'' ''run: main''"
    by (simp add: sublist_by_find str_find_def)
  have provisioned: "tar_ok ?env" "put_ok ?env"
    by (simp_all add: session_def)
  have stored: "fst ?checked =
      Inr (CheckResult_init\<lparr>check_result := STATUS_CHECK_ERROR, tests_passed := 1,
             tests_total := 2\<rparr>)"
    by (simp add: no_build check_solution_tests test_solution_def run_def run_test_def
        collaborator_defs canonicalize_def decode_def in_range_def thread_result_def
        session_def prints_def killed_def CheckResult_init_def Let_def)
  have checked: "?checked =
      (Inr (CheckResult_init\<lparr>check_result := STATUS_CHECK_ERROR, tests_passed := 1,
              tests_total := 2\<rparr>),
       snd ?checked)"
    using stored by (simp add: prod_eq_iff)
  have kill: "Kill \<in> set (calls (snd ?checked))"
    by (simp add: no_build check_solution_tests test_solution_def run_def run_test_def
        collaborator_defs canonicalize_def decode_def in_range_def thread_result_def
        session_def prints_def killed_def log_def Let_def)
  have "check_task_multiple_files ?env (submission ''run: main'') ?tests empty_world =
      (Inr (CheckResult_init\<lparr>check_result := STATUS_CHECK_ERROR, tests_passed := 1,
              tests_total := 2\<rparr>),
       log Remove_container (rmtree (solution_path ?env) (snd ?checked)))"
    using session_accepted
      [where source_code = "submission ''run: main''" and env = ?env and tests = ?tests
         and w = empty_world, OF makefile run_target provisioned checked]
    by (simp add: status_defs CheckResult_init_def)
  then show ?thesis
    using kill
    by (simp add: status_defs CheckResult_init_def log_def rmtree_def)
qed

end
